theory Spec2Isabelle
  imports Main
begin

section \<open>The replicate action: data\<close>

text \<open>
  The action of \<^verbatim>\<open>.github/actions/replicate/replicate.ts\<close> mirrors a bounty issue of
  the public repository into an internal repository. The embedding follows the source
  function by function. Everything the source reads from its surroundings (the process
  environment, the action inputs, the webhook payload, the answers of the GitHub API) is
  a field of one record \<open>Env\<close>; every request sent to the API is appended to a list of
  calls that is passed through the functions and returned. Calls to \<^verbatim>\<open>core.debug\<close>
  change nothing that is observed here and are left out.
\<close>

subsection \<open>JavaScript values that are tested for truthiness\<close>

text \<open>A value of type \<^verbatim>\<open>string | undefined\<close>: falsy when undefined or empty.\<close>

definition truthy_string :: "string option \<Rightarrow> bool" where
  "truthy_string s = (case s of None \<Rightarrow> False | Some v \<Rightarrow> v \<noteq> [])"

text \<open>A value of type \<^verbatim>\<open>number | undefined\<close>: falsy when undefined or zero.\<close>

definition truthy_number :: "int option \<Rightarrow> bool" where
  "truthy_number n = (case n of None \<Rightarrow> False | Some v \<Rightarrow> v \<noteq> 0)"

text \<open>The value of \<^verbatim>\<open>core.getInput('existingIssue') || true\<close> is a string or a boolean.\<close>

datatype js_value = JString string | JBool bool

fun truthy :: "js_value \<Rightarrow> bool" where
  "truthy (JString s) = (s \<noteq> [])"
| "truthy (JBool b) = b"

definition js_or :: "js_value \<Rightarrow> js_value \<Rightarrow> js_value" where
  "js_or a b = (if truthy a then a else b)"

subsection \<open>Numbers in template literals\<close>

text \<open>
  The decimal digits of an integer, as a template literal prints an issue number.
  JavaScript switches to exponent notation from \<open>10\<^sup>2\<^sup>1\<close> on; issue numbers stay far
  below that.
\<close>

function show_nat :: "nat \<Rightarrow> string" where
  "show_nat n =
     (if n < 10 then [char_of (48 + n)]
      else show_nat (n div 10) @ [char_of (48 + n mod 10)])"
  by pat_completeness auto
termination
  by (relation "measure id") auto

definition show_int :: "int \<Rightarrow> string" where
  "show_int i = (if i < 0 then CHR ''-'' # show_nat (nat (- i)) else show_nat (nat i))"

subsection \<open>The webhook payload\<close>

text \<open>
  The fields of \<^verbatim>\<open>WebhookPayload\<close> that the action reads. A field is optional here
  where the source tests it for presence or reads it through \<^verbatim>\<open>?.\<close>:
  \<^verbatim>\<open>payload.issue\<close>, \<^verbatim>\<open>issue.user\<close>, \<^verbatim>\<open>issue.html_url\<close>, \<^verbatim>\<open>issue.body\<close> and
  \<^verbatim>\<open>payload.repository\<close>.
\<close>

record PayloadLabel =
  label_name :: string

record PayloadUser =
  user_login :: string
  user_html_url :: string

record PayloadIssue =
  issue_number :: int
  issue_title :: string
  issue_body :: "string option"
  issue_html_url :: "string option"
  issue_user :: "PayloadUser option"
  issue_labels :: "PayloadLabel list"

record PayloadRepository =
  owner_login :: string
  repo_name :: string

record WebhookPayload =
  issue :: "PayloadIssue option"
  repository :: "PayloadRepository option"

subsection \<open>The issue to create, and the fixed texts\<close>

text \<open>\<^verbatim>\<open>export type Issue = {title: string, body: string, labels: string[]}\<close>\<close>

record Issue =
  title :: string
  body :: string
  labels :: "string list"

definition BOUNTY_LABELS :: "string list" where
  "BOUNTY_LABELS = [''All For One'', ''The Bug Slayer'']"

definition newline :: string where
  "newline = [CHR 0x0A]"

text \<open>A template literal of several lines, each one ended by a line feed.\<close>

definition text_lines :: "string list \<Rightarrow> string" where
  "text_lines ls = concat (map (\<lambda>l. l @ newline) ls)"

definition COMMENT_TASK_LIST :: string where
  "COMMENT_TASK_LIST = text_lines
     [''## Task List'',
      ''- [ ] Initial assessment - Please record your decision in the comment below'',
      ''  - [ ] CodeQL'',
      ''  - [ ] Security Lab'',
      ''- [ ] CodeQL: Generate result set and post the URL in the comment'',
      ''- [ ] Security Lab assessment: '',
      ''  - [ ] Assess the Vulnerability Impact, the Vulnerability Scope, and the False Positive ratio based on the provided CodeQL result set'',
      ''  - [ ] Provide feedback to the author in the PR'',
      ''- [ ] CodeQL assessment:'',
      ''  - [ ] Assess the Code Maturity and the Documentation'',
      ''  - [ ] Provide feedback to the author in the PR'',
      ''  - [ ] Merge the PR into the experimental folder'',
      ''- [ ] Score - Both teams fill the score table according to the version of the PR merged into the repository'',
      ''- [ ] Bounty Payment'']"

definition COMMENT_SCORING :: string where
  "COMMENT_SCORING = text_lines
     [''## Scoring'',
      ''| Criterion | Score|'',
      ''|--- | --- |'',
      ''| Vulnerability Impact | | '',
      ''| Vulnerability Scope | | '',
      ''| False Positive | | '',
      ''| Code Maturity | | '',
      ''| Documentation | | '',
      '''',
      ''- [ ] Reject'',
      ''- [ ] Reject with thank you reward'',
      ''- [ ] Reject with encouragement swag (Decision: Dev Advocacy)'',
      ''- [ ] Accept'']"

definition COMMENT_FIRST_SUBMISSION :: string where
  "COMMENT_FIRST_SUBMISSION = ''## :tada: First submission for this user :tada:''"

section \<open>The classifier\<close>

text \<open>
  The three variables that the callback of \<^verbatim>\<open>issue.labels.forEach\<close> updates:
  \<^verbatim>\<open>result.labels\<close>, \<^verbatim>\<open>bountyIssue\<close> and \<^verbatim>\<open>bountyType\<close>.
\<close>

record LabelScan =
  result_labels :: "string list"
  bountyIssue :: bool
  bountyType :: string

text \<open>One call of the callback, on the label \<open>element\<close>.\<close>

definition scan_label :: "LabelScan \<Rightarrow> PayloadLabel \<Rightarrow> LabelScan" where
  "scan_label s element =
     (let s1 = s\<lparr>result_labels := result_labels s @ [label_name element]\<rparr>
      in if \<not> bountyIssue s1
         then (let s2 = s1\<lparr>bountyIssue := List.member BOUNTY_LABELS (label_name element)\<rparr>
               in if bountyIssue s2 then s2\<lparr>bountyType := label_name element\<rparr> else s2)
         else s1)"

definition scan_labels :: "PayloadLabel list \<Rightarrow> LabelScan" where
  "scan_labels ls =
     foldl scan_label \<lparr>result_labels = [], bountyIssue = False, bountyType = []\<rparr> ls"

definition issue_text :: "PayloadIssue \<Rightarrow> PayloadUser \<Rightarrow> string \<Rightarrow> string" where
  "issue_text i u url =
     ''Original external [issue]('' @ url @ '')'' @ newline @ newline
     @ ''Sumitted by ['' @ user_login u @ '']('' @ user_html_url u @ '')'' @ newline @ newline
     @ (case issue_body i of None \<Rightarrow> [] | Some b \<Rightarrow> if b = [] then [] else b)"

definition generateInternalIssueContentFromPayload :: "WebhookPayload \<Rightarrow> Issue option" where
  "generateInternalIssueContentFromPayload payload =
     (case issue payload of
        None \<Rightarrow> None
      | Some i \<Rightarrow>
          (case issue_user i of
             None \<Rightarrow> None
           | Some u \<Rightarrow>
               (case issue_html_url i of
                  None \<Rightarrow> None
                | Some url \<Rightarrow>
                    if url = [] then None
                    else (let s = scan_labels (issue_labels i)
                          in if \<not> bountyIssue s then None
                             else Some \<lparr>title = ''['' @ bountyType s @ ''] '' @ issue_title i,
                                        body = issue_text i u url,
                                        labels = result_labels s\<rparr>))))"

section \<open>The issue tracker and the surroundings of a run\<close>

text \<open>
  A request of the action to the GitHub API. The client that sends
  \<open>IssuesCreate\<close> and \<open>IssuesCreateComment\<close> was constructed with the token that comes
  first. The repository name is optional: the second component of
  \<^verbatim>\<open>internalRepo.split('/')\<close> is undefined when the input has no slash.
\<close>

datatype call =
    IssuesCreate string string "string option" string string "string list"
  | IssuesCreateComment string string "string option" int string
  | GetIssueList string "string option" "string option" bool

datatype error = TypeError | RequestError string

text \<open>
  Modelled from the spec: the type \<^verbatim>\<open>Issue_info\<close> of the module \<^verbatim>\<open>./issues\<close>, which is
  not part of the sources. The spec describes a mirrored issue record as a reference
  number, a title, a body and an author identity.
\<close>

record Issue_info =
  info_number :: int
  info_title :: string
  info_body :: string
  info_author :: string

text \<open>
  What a run reads from outside: two entries of \<^verbatim>\<open>process.env\<close>, two action inputs
  (\<^verbatim>\<open>core.getInput\<close> gives the empty string for an input that is not set),
  \<^verbatim>\<open>github.context.payload\<close>, and the answer of the API to each request, which may
  depend on the requests sent before it. An answer \<open>Inl e\<close> is a request that throws.
\<close>

record Env =
  INT_REPO_TOKEN :: "string option"
  GITHUB_TOKEN :: "string option"
  input_internal_repo :: string
  input_existingIssue :: string
  context_payload :: WebhookPayload
  issues_create :: "call list \<Rightarrow> call \<Rightarrow> error + int"
  issues_createComment :: "call list \<Rightarrow> call \<Rightarrow> error + string"
  issue_list :: "call list \<Rightarrow> call \<Rightarrow> Issue_info list option"

subsection \<open>The module \<^verbatim>\<open>./issues\<close>\<close>

text \<open>
  Modelled from the spec: \<^verbatim>\<open>getIssueList\<close> of the module \<^verbatim>\<open>./issues\<close>, which is not
  part of the sources. The spec gives it as the listing of the issues of a repository,
  which answers with a list of records or signals that the list could not be retrieved
  (distinguished from the empty list). Here it sends one request and hands back the answer.
\<close>

definition getIssueList ::
  "Env \<Rightarrow> string \<Rightarrow> string option \<Rightarrow> string option \<Rightarrow> bool \<Rightarrow> call list
     \<Rightarrow> Issue_info list option \<times> call list" where
  "getIssueList env owner repo token closed tr =
     (let c = GetIssueList owner repo token closed in (issue_list env tr c, tr @ [c]))"

fun starts_with :: "string \<Rightarrow> string \<Rightarrow> bool" where
  "starts_with s [] = True"
| "starts_with [] (c # cs) = False"
| "starts_with (x # xs) (c # cs) = (x = c \<and> starts_with xs cs)"

fun includes_string :: "string \<Rightarrow> string \<Rightarrow> bool" where
  "includes_string [] u = (u = [])"
| "includes_string (x # xs) u = (starts_with (x # xs) u \<or> includes_string xs u)"

text \<open>
  Modelled from the spec: \<^verbatim>\<open>internalIssueAlreadyCreated\<close> of the module \<^verbatim>\<open>./issues\<close>,
  which is not part of the sources. By the spec an existing mirror is a duplicate of the
  target URL if its body contains the URL as a substring, and the reference of the first
  such mirror is returned, or none. The spec does not say what an undefined URL gives;
  it matches nothing here.
\<close>

definition internalIssueAlreadyCreated :: "string option \<Rightarrow> Issue_info list \<Rightarrow> int option" where
  "internalIssueAlreadyCreated url internalIssues =
     (case url of
        None \<Rightarrow> None
      | Some u \<Rightarrow> map_option info_number (find (\<lambda>i. includes_string (info_body i) u) internalIssues))"

text \<open>
  Modelled from the spec: \<^verbatim>\<open>isUserAlreadyParticipant\<close> of the module \<^verbatim>\<open>./issues\<close>, which
  is not part of the sources. By the spec the submission is a first one only if no entry
  of the listing was authored by the submitter; an absent submitter identity is never a
  first submission; an unavailable listing counts as a listing with no prior submission.
\<close>

definition isUserAlreadyParticipant :: "string option \<Rightarrow> Issue_info list option \<Rightarrow> bool" where
  "isUserAlreadyParticipant author issues =
     (case author of
        None \<Rightarrow> True
      | Some a \<Rightarrow>
          (case issues of
             None \<Rightarrow> False
           | Some l \<Rightarrow> list_ex (\<lambda>i. info_author i = a) l))"

section \<open>The functions of \<^verbatim>\<open>replicate.ts\<close>\<close>

text \<open>
  \<^verbatim>\<open>const [owner, repo] = (core.getInput('internal_repo') || '/').split('/')\<close>: the text
  before the first slash, and the text between the first and the second slash if there
  is a first one.
\<close>

definition split_slash :: "string \<Rightarrow> string \<times> string option" where
  "split_slash s =
     (takeWhile (\<lambda>c. c \<noteq> CHR ''/'') s,
      case dropWhile (\<lambda>c. c \<noteq> CHR ''/'') s of
        [] \<Rightarrow> None
      | _ # rest \<Rightarrow> Some (takeWhile (\<lambda>c. c \<noteq> CHR ''/'') rest))"

definition internalRepo :: "Env \<Rightarrow> string \<times> string option" where
  "internalRepo env =
     split_slash (if input_internal_repo env = [] then ''/'' else input_internal_repo env)"

text \<open>
  \<^verbatim>\<open>isFirstSubmission\<close>. The argument \<^verbatim>\<open>payload.issue?.user.login\<close> is undefined when
  the payload has no issue, and throws a TypeError when it has an issue without a user;
  it is evaluated after the listing was awaited.
\<close>

definition isFirstSubmission ::
  "Env \<Rightarrow> WebhookPayload \<Rightarrow> string option \<Rightarrow> call list \<Rightarrow> (error + bool) \<times> call list" where
  "isFirstSubmission env payload token tr =
     (case repository payload of
        None \<Rightarrow> (Inr False, tr)
      | Some r \<Rightarrow>
          (let (allSubmissions, tr1) =
                 getIssueList env (owner_login r) (Some (repo_name r)) token False tr
           in case issue payload of
                None \<Rightarrow> (Inr (\<not> isUserAlreadyParticipant None allSubmissions), tr1)
              | Some i \<Rightarrow>
                  (case issue_user i of
                     None \<Rightarrow> (Inl TypeError, tr1)
                   | Some u \<Rightarrow>
                       (Inr (\<not> isUserAlreadyParticipant (Some (user_login u)) allSubmissions),
                        tr1))))"

text \<open>
  \<^verbatim>\<open>createInternalIssue\<close>. The variable \<^verbatim>\<open>internal_ref\<close> is declared before the
  \<^verbatim>\<open>try\<close> block, assigned in it once the issue exists, and returned after the
  \<^verbatim>\<open>catch\<close>: every branch below that leaves the block through an exception gives back
  the value the variable has at that point.
\<close>

definition createInternalIssue ::
  "Env \<Rightarrow> WebhookPayload \<Rightarrow> Issue \<Rightarrow> call list \<Rightarrow> int option \<times> call list" where
  "createInternalIssue env payload internalIssue tr =
     (case INT_REPO_TOKEN env of
        None \<Rightarrow> (None, tr)
      | Some internalRepoAccessToken \<Rightarrow>
          if internalRepoAccessToken = [] then (None, tr)
          else
            (let token = GITHUB_TOKEN env;
                 (owner, repo) = internalRepo env;
                 c0 = IssuesCreate internalRepoAccessToken owner repo
                        (title internalIssue) (body internalIssue) (labels internalIssue)
             in case issues_create env tr c0 of
                  Inl e \<Rightarrow> (None, tr @ [c0])
                | Inr internal_ref \<Rightarrow>
                    (let tr1 = tr @ [c0];
                         c1 = IssuesCreateComment internalRepoAccessToken owner repo
                                internal_ref COMMENT_TASK_LIST
                     in case issues_createComment env tr1 c1 of
                          Inl e \<Rightarrow> (Some internal_ref, tr1 @ [c1])
                        | Inr url1 \<Rightarrow>
                            (let tr2 = tr1 @ [c1];
                                 c2 = IssuesCreateComment internalRepoAccessToken owner repo
                                        internal_ref COMMENT_SCORING
                             in case issues_createComment env tr2 c2 of
                                  Inl e \<Rightarrow> (Some internal_ref, tr2 @ [c2])
                                | Inr url2 \<Rightarrow>
                                    (case isFirstSubmission env payload token (tr2 @ [c2]) of
                                       (Inl e, tr3) \<Rightarrow> (Some internal_ref, tr3)
                                     | (Inr first, tr3) \<Rightarrow>
                                         if first
                                         then (Some internal_ref,
                                               tr3 @ [IssuesCreateComment internalRepoAccessToken
                                                        owner repo internal_ref
                                                        COMMENT_FIRST_SUBMISSION])
                                         else (Some internal_ref, tr3))))))"

definition acknowledgement :: "int \<Rightarrow> string" where
  "acknowledgement internal_issue =
     ''Thanks for submitting this bounty :heart:!'' @ newline
     @ ''            Your submission is tracked internally with the issue reference ''
     @ show_int internal_issue @ ''.''"

text \<open>
  \<^verbatim>\<open>commentOriginalIssue\<close>. A request that throws is caught and logged, so the function
  ends the same way whether the comment was accepted or not.
\<close>

definition commentOriginalIssue :: "Env \<Rightarrow> WebhookPayload \<Rightarrow> int \<Rightarrow> call list \<Rightarrow> call list" where
  "commentOriginalIssue env payload internal_issue tr =
     (let external_issue = (case issue payload of None \<Rightarrow> 0 | Some i \<Rightarrow> issue_number i)
      in case GITHUB_TOKEN env of
           None \<Rightarrow> tr
         | Some token \<Rightarrow>
             if token = [] then tr
             else
               (case repository payload of
                  None \<Rightarrow> tr
                | Some r \<Rightarrow>
                    if external_issue \<le> 0 then tr
                    else tr @ [IssuesCreateComment token (owner_login r) (Some (repo_name r))
                                 external_issue (acknowledgement internal_issue)]))"

text \<open>\<^verbatim>\<open>checkDuplicates\<close>; \<^verbatim>\<open>if(ref)\<close> tests a number, and zero is falsy.\<close>

definition checkDuplicates :: "Env \<Rightarrow> WebhookPayload \<Rightarrow> call list \<Rightarrow> bool \<times> call list" where
  "checkDuplicates env payload tr =
     (let internalRepoAccessToken = INT_REPO_TOKEN env;
          (owner, repo) = internalRepo env;
          (internalIssues, tr1) = getIssueList env owner repo internalRepoAccessToken False tr
      in case internalIssues of
           None \<Rightarrow> (True, tr1)
         | Some l \<Rightarrow>
             (let ref = internalIssueAlreadyCreated
                          (case issue payload of None \<Rightarrow> None | Some i \<Rightarrow> issue_html_url i) l
              in if truthy_number ref then (True, tr1) else (False, tr1)))"

text \<open>
  \<^verbatim>\<open>run\<close> returns nothing. Beside the calls, the model gives back which of the three
  functions after the classifier the run has called, and the value of \<^verbatim>\<open>internal_ref\<close>.
\<close>

record Steps =
  called_checkDuplicates :: bool
  called_createInternalIssue :: bool
  internal_reference :: "int option"
  called_commentOriginalIssue :: bool

definition existingIssue_flag :: "Env \<Rightarrow> js_value" where
  "existingIssue_flag env = js_or (JString (input_existingIssue env)) (JBool True)"

definition run :: "Env \<Rightarrow> call list \<Rightarrow> Steps \<times> call list" where
  "run env tr =
     (let payload = context_payload env;
          none = \<lparr>called_checkDuplicates = False, called_createInternalIssue = False,
                  internal_reference = None, called_commentOriginalIssue = False\<rparr>
      in case generateInternalIssueContentFromPayload payload of
           None \<Rightarrow> (none, tr)
         | Some internalIssue \<Rightarrow>
             (let existingIssue = existingIssue_flag env;
                  (duplicate, tr1) =
                     (if truthy existingIssue then checkDuplicates env payload tr
                      else (False, tr));
                  s1 = none\<lparr>called_checkDuplicates := truthy existingIssue\<rparr>
              in if truthy existingIssue \<and> duplicate then (s1, tr1)
                 else
                   (let (internal_ref, tr2) = createInternalIssue env payload internalIssue tr1;
                        s2 = s1\<lparr>called_createInternalIssue := True,
                                internal_reference := internal_ref\<rparr>
                    in case internal_ref of
                         None \<Rightarrow> (s2, tr2)
                       | Some n \<Rightarrow>
                           if n = 0 then (s2, tr2)
                           else if \<not> truthy existingIssue
                           then (s2\<lparr>called_commentOriginalIssue := True\<rparr>,
                                 commentOriginalIssue env payload n tr2)
                           else (s2, tr2))))"

text \<open>
  Lines 193 to 202 of \<^verbatim>\<open>run\<close>, as a function of the value of the variable
  \<^verbatim>\<open>existingIssue\<close> and of the issue that the classifier has produced: the duplicate
  check is behind \<^verbatim>\<open>existingIssue\<close>, the acknowledgement behind \<^verbatim>\<open>!existingIssue\<close>.
\<close>

definition run_from_existingIssue ::
  "Env \<Rightarrow> js_value \<Rightarrow> Issue \<Rightarrow> call list \<Rightarrow> Steps \<times> call list" where
  "run_from_existingIssue env existingIssue internalIssue tr =
     (let payload = context_payload env;
          none = \<lparr>called_checkDuplicates = False, called_createInternalIssue = False,
                  internal_reference = None, called_commentOriginalIssue = False\<rparr>;
          (duplicate, tr1) =
             (if truthy existingIssue then checkDuplicates env payload tr
              else (False, tr));
          s1 = none\<lparr>called_checkDuplicates := truthy existingIssue\<rparr>
      in if truthy existingIssue \<and> duplicate then (s1, tr1)
         else
           (let (internal_ref, tr2) = createInternalIssue env payload internalIssue tr1;
                s2 = s1\<lparr>called_createInternalIssue := True,
                        internal_reference := internal_ref\<rparr>
            in case internal_ref of
                 None \<Rightarrow> (s2, tr2)
               | Some n \<Rightarrow>
                   if n = 0 then (s2, tr2)
                   else if \<not> truthy existingIssue
                   then (s2\<lparr>called_commentOriginalIssue := True\<rparr>,
                         commentOriginalIssue env payload n tr2)
                   else (s2, tr2)))"

section \<open>A concrete run\<close>

text \<open>
  The event of the first end-to-end scenario of the spec: an issue titled
  \<^verbatim>\<open>Heap overflow\<close> with the labels \<^verbatim>\<open>All For One\<close> and \<^verbatim>\<open>bug\<close>, submitted by
  \<^verbatim>\<open>alice\<close>; both tokens are set, the internal repository has no issue, the issue
  created gets the number 7 and every request is accepted.
\<close>

definition alice :: PayloadUser where
  "alice = \<lparr>user_login = ''alice'', user_html_url = ''https://github.com/alice''\<rparr>"

definition heap_overflow :: PayloadIssue where
  "heap_overflow =
     \<lparr>issue_number = 12, issue_title = ''Heap overflow'', issue_body = Some ''details'',
      issue_html_url = Some ''https://github.com/github/securitylab/issues/12'',
      issue_user = Some alice,
      issue_labels = [\<lparr>label_name = ''All For One''\<rparr>, \<lparr>label_name = ''bug''\<rparr>]\<rparr>"

definition securitylab :: PayloadRepository where
  "securitylab = \<lparr>owner_login = ''github'', repo_name = ''securitylab''\<rparr>"

definition bounty_event :: WebhookPayload where
  "bounty_event = \<lparr>issue = Some heap_overflow, repository = Some securitylab\<rparr>"

definition bounty_draft :: Issue where
  "bounty_draft =
     \<lparr>title = ''[All For One] Heap overflow'',
      body = ''Original external [issue](https://github.com/github/securitylab/issues/12)''
             @ newline @ newline
             @ ''Sumitted by [alice](https://github.com/alice)'' @ newline @ newline
             @ ''details'',
      labels = [''All For One'', ''bug'']\<rparr>"

definition fresh_env :: Env where
  "fresh_env =
     \<lparr>INT_REPO_TOKEN = Some ''internal-secret'', GITHUB_TOKEN = Some ''public-secret'',
      input_internal_repo = ''github/securitylab-internal'', input_existingIssue = [],
      context_payload = bounty_event,
      issues_create = (\<lambda>tr c. Inr 7),
      issues_createComment = (\<lambda>tr c. Inr ''https://api.github.com/comment''),
      issue_list = (\<lambda>tr c. Some [])\<rparr>"

text \<open>The same surroundings with a tracker that refuses every comment.\<close>

definition no_comment_env :: Env where
  "no_comment_env =
     fresh_env\<lparr>issues_createComment := (\<lambda>tr c. Inl (RequestError ''Not Found''))\<rparr>"

text \<open>The calls of the internal comments of a list of calls, as their texts in order.\<close>

fun comment_texts :: "call list \<Rightarrow> string list" where
  "comment_texts [] = []"
| "comment_texts (IssuesCreateComment t ow re n b # cs) = b # comment_texts cs"
| "comment_texts (c # cs) = comment_texts cs"

text \<open>
  Variations of the event: no bounty label; a bounty label after an ordinary one and before
  another bounty label; an issue without a user; no repository.
\<close>

definition enhancement_event :: WebhookPayload where
  "enhancement_event =
     \<lparr>issue = Some (heap_overflow\<lparr>issue_labels := [\<lparr>label_name = ''enhancement''\<rparr>]\<rparr>),
      repository = Some securitylab\<rparr>"

definition later_bounty_event :: WebhookPayload where
  "later_bounty_event =
     \<lparr>issue = Some (heap_overflow\<lparr>issue_labels :=
                [\<lparr>label_name = ''bug''\<rparr>, \<lparr>label_name = ''The Bug Slayer''\<rparr>,
                 \<lparr>label_name = ''All For One''\<rparr>]\<rparr>),
      repository = Some securitylab\<rparr>"

definition anonymous_event :: WebhookPayload where
  "anonymous_event =
     \<lparr>issue = Some (heap_overflow\<lparr>issue_user := None\<rparr>), repository = Some securitylab\<rparr>"

definition homeless_event :: WebhookPayload where
  "homeless_event = \<lparr>issue = Some heap_overflow, repository = None\<rparr>"

text \<open>
  Variations of the surroundings: no token for the internal repository; a tracker that
  cannot list issues; a tracker that refuses to create issues; a listing in which
  \<^verbatim>\<open>alice\<close> has submitted before.
\<close>

definition no_token_env :: Env where
  "no_token_env = fresh_env\<lparr>INT_REPO_TOKEN := None\<rparr>"

definition no_listing_env :: Env where
  "no_listing_env = fresh_env\<lparr>issue_list := (\<lambda>tr c. None)\<rparr>"

definition no_issue_env :: Env where
  "no_issue_env = fresh_env\<lparr>issues_create := (\<lambda>tr c. Inl (RequestError ''Forbidden''))\<rparr>"

definition returning_env :: Env where
  "returning_env =
     fresh_env\<lparr>issue_list := (\<lambda>tr c.
        Some [\<lparr>info_number = 3, info_title = ''Use after free'',
               info_body = ''an older report'', info_author = ''alice''\<rparr>])\<rparr>"



text \<open>The listing requests of a list of calls.\<close>

fun listing_calls :: "call list \<Rightarrow> call list" where
  "listing_calls [] = []"
| "listing_calls (GetIssueList ow re t cl # cs) = GetIssueList ow re t cl # listing_calls cs"
| "listing_calls (c # cs) = listing_calls cs"

section \<open>Properties of the classifier\<close>

lemma scan_after_match:
  "bountyIssue s \<Longrightarrow>
   foldl scan_label s ls = s\<lparr>result_labels := result_labels s @ map label_name ls\<rparr>"
  by (induction ls arbitrary: s) (simp_all add: scan_label_def Let_def)

lemma scan_before_match:
  "\<not> bountyIssue s \<Longrightarrow> \<forall>l \<in> set ls. label_name l \<notin> set BOUNTY_LABELS \<Longrightarrow>
   foldl scan_label s ls = s\<lparr>result_labels := result_labels s @ map label_name ls\<rparr>"
  by (induction ls arbitrary: s) (simp_all add: scan_label_def Let_def)

lemma scan_labels_first_match:
  assumes "\<forall>l \<in> set pre. label_name l \<notin> set BOUNTY_LABELS"
    and "label_name c \<in> set BOUNTY_LABELS"
  shows "scan_labels (pre @ c # post) =
           \<lparr>result_labels = map label_name (pre @ c # post), bountyIssue = True,
            bountyType = label_name c\<rparr>"
proof -
  let ?s0 = "\<lparr>result_labels = [], bountyIssue = False, bountyType = []\<rparr>"
  let ?s1 = "\<lparr>result_labels = map label_name pre, bountyIssue = False, bountyType = []\<rparr>"
  have a: "foldl scan_label ?s0 pre = ?s1"
    using scan_before_match [of ?s0 pre] assms(1) by simp
  have b: "scan_label ?s1 c =
             \<lparr>result_labels = map label_name pre @ [label_name c], bountyIssue = True,
              bountyType = label_name c\<rparr>"
    using assms(2) by (simp add: scan_label_def Let_def)
  show ?thesis
    by (simp add: scan_labels_def a b scan_after_match)
qed

lemma find_first_match:
  "\<forall>l \<in> set pre. \<not> P l \<Longrightarrow> P c \<Longrightarrow> find P (pre @ c # post) = Some c"
  by (induction pre) simp_all

text \<open>
  C5. An event passes the validity check when it has an issue, the issue has a user and a
  non-empty URL. If the labels of such an event are \<open>pre @ c # post\<close>, where \<open>c\<close> is a
  bounty label and no label of \<open>pre\<close> is one, then \<open>c\<close> is the first label of the event
  that is a bounty label, and the classifier produces a draft whose title is
  \<^verbatim>\<open>[c] t\<close> for the title \<open>t\<close> of the event, whatever the labels of \<open>post\<close> are, and
  whose labels are the names of all labels of the event, in their order.
\<close>

theorem first_bounty_label_gives_title:
  assumes "issue payload = Some i" and "issue_user i = Some u"
    and "issue_html_url i = Some url" and "url \<noteq> []"
    and "issue_labels i = pre @ c # post"
    and "\<forall>l \<in> set pre. label_name l \<notin> set BOUNTY_LABELS"
    and "label_name c \<in> set BOUNTY_LABELS"
  shows "find (\<lambda>l. label_name l \<in> set BOUNTY_LABELS) (issue_labels i) = Some c
         \<and> generateInternalIssueContentFromPayload payload =
             Some \<lparr>title = ''['' @ label_name c @ ''] '' @ issue_title i,
                   body = issue_text i u url,
                   labels = map label_name (issue_labels i)\<rparr>"
proof -
  have "find (\<lambda>l. label_name l \<in> set BOUNTY_LABELS) (pre @ c # post) = Some c"
    using assms(6,7) by (intro find_first_match) simp_all
  moreover have "generateInternalIssueContentFromPayload payload =
             Some \<lparr>title = ''['' @ label_name c @ ''] '' @ issue_title i,
                   body = issue_text i u url,
                   labels = map label_name (issue_labels i)\<rparr>"
    using assms
    by (simp add: generateInternalIssueContentFromPayload_def scan_labels_first_match)
  ultimately show ?thesis
    using assms(5) by simp
qed

text \<open>
  The labels \<^verbatim>\<open>bug\<close>, \<^verbatim>\<open>The Bug Slayer\<close>, \<^verbatim>\<open>All For One\<close>, in this order: the category
  is the first bounty label, not the last.
\<close>

theorem first_bounty_label_gives_title_witness:
  "issue later_bounty_event \<noteq> None \<and>
   label_name \<lparr>label_name = ''bug''\<rparr> \<notin> set BOUNTY_LABELS \<and>
   label_name \<lparr>label_name = ''The Bug Slayer''\<rparr> \<in> set BOUNTY_LABELS \<and>
   label_name \<lparr>label_name = ''All For One''\<rparr> \<in> set BOUNTY_LABELS \<and>
   generateInternalIssueContentFromPayload later_bounty_event =
     Some \<lparr>title = ''[The Bug Slayer] Heap overflow'',
           body = body bounty_draft,
           labels = [''bug'', ''The Bug Slayer'', ''All For One'']\<rparr>"
  using first_bounty_label_gives_title
          [where payload = later_bounty_event
             and i = "heap_overflow\<lparr>issue_labels :=
                        [\<lparr>label_name = ''bug''\<rparr>, \<lparr>label_name = ''The Bug Slayer''\<rparr>,
                         \<lparr>label_name = ''All For One''\<rparr>]\<rparr>"
             and u = alice and url = "''https://github.com/github/securitylab/issues/12''"
             and pre = "[\<lparr>label_name = ''bug''\<rparr>]" and c = "\<lparr>label_name = ''The Bug Slayer''\<rparr>"
             and post = "[\<lparr>label_name = ''All For One''\<rparr>]"]
  by (simp add: later_bounty_event_def heap_overflow_def alice_def bounty_draft_def
        issue_text_def BOUNTY_LABELS_def)

section \<open>Properties of the first-submission check\<close>

lemma comment_texts_append: "comment_texts (xs @ ys) = comment_texts xs @ comment_texts ys"
  by (induction xs rule: comment_texts.induct) simp_all

lemma listing_calls_append: "listing_calls (xs @ ys) = listing_calls xs @ listing_calls ys"
  by (induction xs rule: listing_calls.induct) simp_all

lemma isFirstSubmission_calls:
  "snd (isFirstSubmission env payload token tr) =
     (case repository payload of
        None \<Rightarrow> tr
      | Some r \<Rightarrow> tr @ [GetIssueList (owner_login r) (Some (repo_name r)) token False])"
  by (simp add: isFirstSubmission_def getIssueList_def Let_def split: option.splits)

lemma isFirstSubmission_comment_texts:
  "comment_texts (snd (isFirstSubmission env payload token tr)) = comment_texts tr"
  by (simp add: isFirstSubmission_calls comment_texts_append split: option.splits)

text \<open>
  C10. For a payload without a repository, \<^verbatim>\<open>isFirstSubmission\<close> returns false and sends
  no request: the list of calls is the one it was given.
\<close>

theorem isFirstSubmission_without_repository:
  "repository payload = None \<Longrightarrow> isFirstSubmission env payload token tr = (Inr False, tr)"
  by (simp add: isFirstSubmission_def)

theorem isFirstSubmission_without_repository_witness:
  "repository homeless_event = None \<and>
   isFirstSubmission fresh_env homeless_event (Some ''public-secret'') [] = (Inr False, [])"
  using isFirstSubmission_without_repository
          [of homeless_event fresh_env "Some ''public-secret''" "[]"]
  by (simp add: homeless_event_def)

text \<open>
  C4, as amended. For a payload with a repository and an issue that has a user, if the
  listing of the submissions is unavailable, \<^verbatim>\<open>isFirstSubmission\<close> returns true.
\<close>

theorem isFirstSubmission_unavailable_listing:
  assumes "repository payload = Some r" and "issue payload = Some i" and "issue_user i = Some u"
    and "issue_list env tr (GetIssueList (owner_login r) (Some (repo_name r)) token False) = None"
  shows "fst (isFirstSubmission env payload token tr) = Inr True"
  using assms
  by (simp add: isFirstSubmission_def getIssueList_def isUserAlreadyParticipant_def Let_def)

theorem isFirstSubmission_unavailable_listing_witness:
  "repository bounty_event = Some securitylab \<and> issue bounty_event = Some heap_overflow \<and>
   issue_user heap_overflow = Some alice \<and>
   issue_list no_listing_env []
     (GetIssueList (owner_login securitylab) (Some (repo_name securitylab))
        (Some ''public-secret'') False) = None \<and>
   fst (isFirstSubmission no_listing_env bounty_event (Some ''public-secret'') []) = Inr True"
  using isFirstSubmission_unavailable_listing
          [of bounty_event securitylab heap_overflow alice no_listing_env "[]"
              "Some ''public-secret''"]
  by (simp add: bounty_event_def heap_overflow_def no_listing_env_def fresh_env_def)

text \<open>
  The payload has a repository and an issue without a user, and the listing is
  unavailable: the listing is requested, then reading \<^verbatim>\<open>payload.issue?.user.login\<close>
  throws, and the promise of \<^verbatim>\<open>isFirstSubmission\<close> is rejected instead of giving true.
\<close>

theorem isFirstSubmission_missing_user_counterexample:
  "repository anonymous_event = Some securitylab \<and>
   issue_list no_listing_env []
     (GetIssueList ''github'' (Some ''securitylab'') (Some ''public-secret'') False) = None \<and>
   isFirstSubmission no_listing_env anonymous_event (Some ''public-secret'') [] =
     (Inl TypeError, [GetIssueList ''github'' (Some ''securitylab'') (Some ''public-secret'') False])"
  by (simp add: isFirstSubmission_def getIssueList_def anonymous_event_def securitylab_def
        heap_overflow_def no_listing_env_def fresh_env_def)

section \<open>Properties of the creation of the internal issue\<close>

text \<open>
  C6. When the token of the internal repository is undefined or empty,
  \<^verbatim>\<open>createInternalIssue\<close> returns undefined and sends no request at all: the list of
  calls is the one it was given. The function has no other way to end.
\<close>

theorem createInternalIssue_without_token:
  "\<not> truthy_string (INT_REPO_TOKEN env) \<Longrightarrow>
   createInternalIssue env payload internalIssue tr = (None, tr)"
  by (simp add: createInternalIssue_def truthy_string_def split: option.splits)

theorem createInternalIssue_without_token_witness:
  "\<not> truthy_string (INT_REPO_TOKEN no_token_env) \<and>
   createInternalIssue no_token_env bounty_event bounty_draft [] = (None, [])"
  using createInternalIssue_without_token [of no_token_env bounty_event bounty_draft "[]"]
  by (simp add: no_token_env_def truthy_string_def)

text \<open>
  C1, as amended. With a token for the internal repository, \<^verbatim>\<open>createInternalIssue\<close>
  returns undefined when the request that creates the issue throws, and returns the
  number of the created issue when that request succeeds, whatever happens to the
  requests after it. No exception leaves the function.
\<close>

theorem createInternalIssue_returns_created_reference:
  assumes "INT_REPO_TOKEN env = Some t" and "t \<noteq> []"
  shows "fst (createInternalIssue env payload internalIssue tr) =
           (case issues_create env tr
                   (IssuesCreate t (fst (internalRepo env)) (snd (internalRepo env))
                      (title internalIssue) (body internalIssue) (labels internalIssue)) of
              Inl e \<Rightarrow> None
            | Inr n \<Rightarrow> Some n)"
  using assms
  by (simp add: createInternalIssue_def Let_def split: prod.splits sum.splits)

theorem createInternalIssue_returns_created_reference_witness:
  "INT_REPO_TOKEN no_comment_env = Some ''internal-secret'' \<and>
   fst (createInternalIssue no_comment_env bounty_event bounty_draft []) = Some 7 \<and>
   INT_REPO_TOKEN no_issue_env = Some ''internal-secret'' \<and>
   fst (createInternalIssue no_issue_env bounty_event bounty_draft []) = None"
  using createInternalIssue_returns_created_reference
          [of no_comment_env "''internal-secret''" bounty_event bounty_draft "[]"]
        createInternalIssue_returns_created_reference
          [of no_issue_env "''internal-secret''" bounty_event bounty_draft "[]"]
  by (simp add: no_comment_env_def no_issue_env_def fresh_env_def)

text \<open>
  The issue is created with the number 7 and the tracker refuses the first comment:
  the failure is caught, and the function returns 7, not undefined.
\<close>

theorem createInternalIssue_comment_failure_counterexample:
  "issues_createComment no_comment_env
     [IssuesCreate ''internal-secret'' ''github'' (Some ''securitylab-internal'')
        (title bounty_draft) (body bounty_draft) (labels bounty_draft)]
     (IssuesCreateComment ''internal-secret'' ''github'' (Some ''securitylab-internal'') 7
        COMMENT_TASK_LIST) = Inl (RequestError ''Not Found'') \<and>
   createInternalIssue no_comment_env bounty_event bounty_draft [] =
     (Some 7,
      [IssuesCreate ''internal-secret'' ''github'' (Some ''securitylab-internal'')
         (title bounty_draft) (body bounty_draft) (labels bounty_draft),
       IssuesCreateComment ''internal-secret'' ''github'' (Some ''securitylab-internal'') 7
         COMMENT_TASK_LIST])"
  by (simp add: createInternalIssue_def no_comment_env_def fresh_env_def internalRepo_def
        split_slash_def)

text \<open>
  C7. When the token of the internal repository is set, the issue is created with number
  \<open>n\<close>, every comment on it is accepted and the first-submission check returns \<open>first\<close>,
  \<^verbatim>\<open>createInternalIssue\<close> returns \<open>n\<close> and the comments it sends are, in this order, the
  task list, the scoring table and, only if \<open>first\<close> is true, the first-submission banner.
\<close>

theorem createInternalIssue_comment_order:
  assumes "INT_REPO_TOKEN env = Some t" and "t \<noteq> []" and "internalRepo env = (owner, repo)"
    and "issues_create env tr
           (IssuesCreate t owner repo (title internalIssue) (body internalIssue)
              (labels internalIssue)) = Inr n"
    and "\<forall>tr' b. \<exists>url. issues_createComment env tr' (IssuesCreateComment t owner repo n b) = Inr url"
    and "fst (isFirstSubmission env payload (GITHUB_TOKEN env)
                (tr @ [IssuesCreate t owner repo (title internalIssue) (body internalIssue)
                         (labels internalIssue),
                       IssuesCreateComment t owner repo n COMMENT_TASK_LIST,
                       IssuesCreateComment t owner repo n COMMENT_SCORING])) = Inr first"
  shows "fst (createInternalIssue env payload internalIssue tr) = Some n \<and>
         comment_texts (snd (createInternalIssue env payload internalIssue tr)) =
           comment_texts tr @ [COMMENT_TASK_LIST, COMMENT_SCORING]
           @ (if first then [COMMENT_FIRST_SUBMISSION] else [])"
proof -
  let ?c0 = "IssuesCreate t owner repo (title internalIssue) (body internalIssue)
               (labels internalIssue)"
  let ?c1 = "IssuesCreateComment t owner repo n COMMENT_TASK_LIST"
  let ?c2 = "IssuesCreateComment t owner repo n COMMENT_SCORING"
  let ?c3 = "IssuesCreateComment t owner repo n COMMENT_FIRST_SUBMISSION"
  let ?tr2 = "tr @ [?c0, ?c1, ?c2]"
  obtain url1 where u1: "issues_createComment env (tr @ [?c0]) ?c1 = Inr url1"
    using assms(5) by blast
  obtain url2 where u2: "issues_createComment env (tr @ [?c0, ?c1]) ?c2 = Inr url2"
    using assms(5) by blast
  obtain tr3 where f: "isFirstSubmission env payload (GITHUB_TOKEN env) ?tr2 = (Inr first, tr3)"
    using assms(6) by (cases "isFirstSubmission env payload (GITHUB_TOKEN env) ?tr2") simp
  have t3: "comment_texts tr3 = comment_texts ?tr2"
    using isFirstSubmission_comment_texts [of env payload "GITHUB_TOKEN env" ?tr2] f by simp
  have r: "createInternalIssue env payload internalIssue tr =
             (Some n, if first then tr3 @ [?c3] else tr3)"
    using assms(1-4) u1 u2 f by (simp add: createInternalIssue_def)
  show ?thesis
    by (simp add: r t3 comment_texts_append)
qed

text \<open>
  A first submission gets the three comments; with an earlier submission of \<^verbatim>\<open>alice\<close>
  in the listing, the same event gets the two fixed comments only.
\<close>

theorem createInternalIssue_comment_order_witness:
  "fst (isFirstSubmission fresh_env bounty_event (GITHUB_TOKEN fresh_env)
          [IssuesCreate ''internal-secret'' ''github'' (Some ''securitylab-internal'')
             (title bounty_draft) (body bounty_draft) (labels bounty_draft),
           IssuesCreateComment ''internal-secret'' ''github'' (Some ''securitylab-internal'') 7
             COMMENT_TASK_LIST,
           IssuesCreateComment ''internal-secret'' ''github'' (Some ''securitylab-internal'') 7
             COMMENT_SCORING]) = Inr True \<and>
   comment_texts (snd (createInternalIssue fresh_env bounty_event bounty_draft [])) =
     [COMMENT_TASK_LIST, COMMENT_SCORING, COMMENT_FIRST_SUBMISSION] \<and>
   fst (isFirstSubmission returning_env bounty_event (GITHUB_TOKEN returning_env)
          [IssuesCreate ''internal-secret'' ''github'' (Some ''securitylab-internal'')
             (title bounty_draft) (body bounty_draft) (labels bounty_draft),
           IssuesCreateComment ''internal-secret'' ''github'' (Some ''securitylab-internal'') 7
             COMMENT_TASK_LIST,
           IssuesCreateComment ''internal-secret'' ''github'' (Some ''securitylab-internal'') 7
             COMMENT_SCORING]) = Inr False \<and>
   comment_texts (snd (createInternalIssue returning_env bounty_event bounty_draft [])) =
     [COMMENT_TASK_LIST, COMMENT_SCORING]"
proof -
  have a: "fst (isFirstSubmission fresh_env bounty_event (GITHUB_TOKEN fresh_env) tr) = Inr True"
    for tr
    by (simp add: isFirstSubmission_def getIssueList_def isUserAlreadyParticipant_def
          bounty_event_def heap_overflow_def fresh_env_def)
  have b: "fst (isFirstSubmission returning_env bounty_event (GITHUB_TOKEN returning_env) tr)
             = Inr False" for tr
    by (simp add: isFirstSubmission_def getIssueList_def isUserAlreadyParticipant_def
          bounty_event_def heap_overflow_def alice_def returning_env_def fresh_env_def)
  have i: "internalRepo fresh_env = (''github'', Some ''securitylab-internal'')"
    "internalRepo returning_env = (''github'', Some ''securitylab-internal'')"
    by (simp_all add: internalRepo_def split_slash_def returning_env_def fresh_env_def)
  show ?thesis
    using createInternalIssue_comment_order [where env = fresh_env and t = "''internal-secret''" and owner = "''github''"
                and repo = "Some ''securitylab-internal''" and internalIssue = bounty_draft
                and tr = "[]" and n = 7 and payload = bounty_event and first = True, OF _ _ i(1)]
      createInternalIssue_comment_order [where env = returning_env and t = "''internal-secret''" and owner = "''github''"
                and repo = "Some ''securitylab-internal''" and internalIssue = bounty_draft
                and tr = "[]" and n = 7 and payload = bounty_event and first = False, OF _ _ i(2)]
      a b
    by (simp add: returning_env_def fresh_env_def)
qed

text \<open>
  C9. For a payload with a repository, \<^verbatim>\<open>isFirstSubmission\<close> sends one listing request,
  for the owner and the name of the repository of the payload and with the token it was
  given, and its result is computed from the answer to that request. The only listing
  request that \<^verbatim>\<open>createInternalIssue\<close> can send is that request with the token
  \<^verbatim>\<open>GITHUB_TOKEN\<close>: it never lists the internal repository.
\<close>

theorem isFirstSubmission_reads_payload_repository:
  assumes "repository payload = Some r"
  shows "isFirstSubmission env payload token tr =
           (case issue payload of
              None \<Rightarrow>
                Inr (\<not> isUserAlreadyParticipant None
                         (issue_list env tr
                            (GetIssueList (owner_login r) (Some (repo_name r)) token False)))
            | Some i \<Rightarrow>
                (case issue_user i of
                   None \<Rightarrow> Inl TypeError
                 | Some u \<Rightarrow>
                     Inr (\<not> isUserAlreadyParticipant (Some (user_login u))
                              (issue_list env tr
                                 (GetIssueList (owner_login r) (Some (repo_name r)) token False)))),
            tr @ [GetIssueList (owner_login r) (Some (repo_name r)) token False])
         \<and> (listing_calls (snd (createInternalIssue env payload internalIssue tr)) = listing_calls tr
            \<or> listing_calls (snd (createInternalIssue env payload internalIssue tr)) =
                listing_calls tr
                @ [GetIssueList (owner_login r) (Some (repo_name r)) (GITHUB_TOKEN env) False])"
proof -
  have 1: "isFirstSubmission env payload token tr =
           (case issue payload of
              None \<Rightarrow>
                Inr (\<not> isUserAlreadyParticipant None
                         (issue_list env tr
                            (GetIssueList (owner_login r) (Some (repo_name r)) token False)))
            | Some i \<Rightarrow>
                (case issue_user i of
                   None \<Rightarrow> Inl TypeError
                 | Some u \<Rightarrow>
                     Inr (\<not> isUserAlreadyParticipant (Some (user_login u))
                              (issue_list env tr
                                 (GetIssueList (owner_login r) (Some (repo_name r)) token False)))),
            tr @ [GetIssueList (owner_login r) (Some (repo_name r)) token False])"
    using assms
    by (simp add: isFirstSubmission_def getIssueList_def Let_def split: option.splits)
  have s: "listing_calls (snd (isFirstSubmission env payload (GITHUB_TOKEN env) tr')) =
             listing_calls tr'
             @ [GetIssueList (owner_login r) (Some (repo_name r)) (GITHUB_TOKEN env) False]" for tr'
    using assms by (simp add: isFirstSubmission_calls listing_calls_append)
  have 2: "listing_calls (snd (createInternalIssue env payload internalIssue tr)) = listing_calls tr
            \<or> listing_calls (snd (createInternalIssue env payload internalIssue tr)) =
                listing_calls tr
                @ [GetIssueList (owner_login r) (Some (repo_name r)) (GITHUB_TOKEN env) False]"
  proof (cases "INT_REPO_TOKEN env")
    case None
    then show ?thesis by (simp add: createInternalIssue_def)
  next
    case (Some t)
    obtain owner repo where ir: "internalRepo env = (owner, repo)"
      by (cases "internalRepo env")
    show ?thesis
    proof (cases "t = []")
      case True
      with Some show ?thesis by (simp add: createInternalIssue_def)
    next
      case False
      let ?c0 = "IssuesCreate t owner repo (title internalIssue) (body internalIssue)
                   (labels internalIssue)"
      show ?thesis
      proof (cases "issues_create env tr ?c0")
        case (Inl e)
        with Some False ir show ?thesis
          by (simp add: createInternalIssue_def listing_calls_append)
      next
        case (Inr n)
        let ?c1 = "IssuesCreateComment t owner repo n COMMENT_TASK_LIST"
        let ?c2 = "IssuesCreateComment t owner repo n COMMENT_SCORING"
        show ?thesis
        proof (cases "issues_createComment env (tr @ [?c0]) ?c1")
          case (Inl e)
          with Some False ir Inr show ?thesis
            by (simp add: createInternalIssue_def listing_calls_append)
        next
          case c1: (Inr url1)
          show ?thesis
          proof (cases "issues_createComment env (tr @ [?c0, ?c1]) ?c2")
            case (Inl e)
            with Some False ir Inr c1 show ?thesis
              by (simp add: createInternalIssue_def listing_calls_append)
          next
            case c2: (Inr url2)
            obtain res tr3 where
              f: "isFirstSubmission env payload (GITHUB_TOKEN env) (tr @ [?c0, ?c1, ?c2])
                    = (res, tr3)"
              by (cases "isFirstSubmission env payload (GITHUB_TOKEN env) (tr @ [?c0, ?c1, ?c2])")
            have l3: "listing_calls tr3 = listing_calls tr
                @ [GetIssueList (owner_login r) (Some (repo_name r)) (GITHUB_TOKEN env) False]"
              using s [of "tr @ [?c0, ?c1, ?c2]"] f by (simp add: listing_calls_append)
            have "snd (createInternalIssue env payload internalIssue tr) = tr3
                  \<or> snd (createInternalIssue env payload internalIssue tr) =
                      tr3 @ [IssuesCreateComment t owner repo n COMMENT_FIRST_SUBMISSION]"
              using Some False ir Inr c1 c2 f
              by (simp add: createInternalIssue_def split: sum.splits)
            then show ?thesis
              using l3 by (auto simp: listing_calls_append)
          qed
        qed
      qed
    qed
  qed
  from 1 2 show ?thesis by blast
qed

theorem isFirstSubmission_reads_payload_repository_witness:
  "repository bounty_event = Some securitylab \<and>
   isFirstSubmission fresh_env bounty_event (GITHUB_TOKEN fresh_env) [] =
     (Inr True, [GetIssueList ''github'' (Some ''securitylab'') (Some ''public-secret'') False]) \<and>
   listing_calls (snd (createInternalIssue fresh_env bounty_event bounty_draft [])) =
     [GetIssueList ''github'' (Some ''securitylab'') (Some ''public-secret'') False]"
proof -
  have r: "repository bounty_event = Some securitylab"
    by (simp add: bounty_event_def)
  have c: "listing_calls (snd (createInternalIssue fresh_env bounty_event bounty_draft [])) =
             [GetIssueList ''github'' (Some ''securitylab'') (Some ''public-secret'') False]"
    by (simp add: createInternalIssue_def isFirstSubmission_def getIssueList_def
          isUserAlreadyParticipant_def internalRepo_def split_slash_def bounty_event_def
          heap_overflow_def securitylab_def fresh_env_def)
  show ?thesis
    using isFirstSubmission_reads_payload_repository
            [OF r, of fresh_env "GITHUB_TOKEN fresh_env" "[]" bounty_draft] r c
    by (simp add: isUserAlreadyParticipant_def bounty_event_def heap_overflow_def
          securitylab_def fresh_env_def)
qed

section \<open>Properties of a run\<close>

lemma existingIssue_flag_truthy: "truthy (existingIssue_flag env)"
  by (simp add: existingIssue_flag_def js_or_def)

lemma run_with_truthy_flag:
  "run env tr =
     (case generateInternalIssueContentFromPayload (context_payload env) of
        None \<Rightarrow>
          (\<lparr>called_checkDuplicates = False, called_createInternalIssue = False,
            internal_reference = None, called_commentOriginalIssue = False\<rparr>, tr)
      | Some internalIssue \<Rightarrow>
          (case checkDuplicates env (context_payload env) tr of
             (duplicate, tr1) \<Rightarrow>
               if duplicate
               then (\<lparr>called_checkDuplicates = True, called_createInternalIssue = False,
                      internal_reference = None, called_commentOriginalIssue = False\<rparr>, tr1)
               else (case createInternalIssue env (context_payload env) internalIssue tr1 of
                       (internal_ref, tr2) \<Rightarrow>
                         (\<lparr>called_checkDuplicates = True, called_createInternalIssue = True,
                           internal_reference = internal_ref,
                           called_commentOriginalIssue = False\<rparr>, tr2))))"
  by (simp add: run_def Let_def existingIssue_flag_truthy split: option.splits prod.splits)

lemma checkDuplicates_unavailable:
  "issue_list env tr
     (GetIssueList (fst (internalRepo env)) (snd (internalRepo env)) (INT_REPO_TOKEN env) False)
     = None \<Longrightarrow>
   checkDuplicates env payload tr =
     (True, tr @ [GetIssueList (fst (internalRepo env)) (snd (internalRepo env))
                    (INT_REPO_TOKEN env) False])"
  by (cases "internalRepo env") (simp add: checkDuplicates_def getIssueList_def)

text \<open>
  C3. When the listing of the internal repository is unavailable, \<^verbatim>\<open>checkDuplicates\<close>
  returns true after that one request, and a run whose event is a bounty submission ends
  there: \<^verbatim>\<open>createInternalIssue\<close> is not called and no request follows the listing.
\<close>

theorem unavailable_list_is_duplicate:
  assumes "issue_list env tr
             (GetIssueList (fst (internalRepo env)) (snd (internalRepo env))
                (INT_REPO_TOKEN env) False) = None"
  shows "checkDuplicates env payload tr =
           (True, tr @ [GetIssueList (fst (internalRepo env)) (snd (internalRepo env))
                          (INT_REPO_TOKEN env) False])
         \<and> (generateInternalIssueContentFromPayload (context_payload env) \<noteq> None \<longrightarrow>
              run env tr =
                (\<lparr>called_checkDuplicates = True, called_createInternalIssue = False,
                  internal_reference = None, called_commentOriginalIssue = False\<rparr>,
                 tr @ [GetIssueList (fst (internalRepo env)) (snd (internalRepo env))
                         (INT_REPO_TOKEN env) False]))"
  using assms
  by (auto simp: run_with_truthy_flag checkDuplicates_unavailable)

theorem unavailable_list_is_duplicate_witness:
  "issue_list no_listing_env []
     (GetIssueList (fst (internalRepo no_listing_env)) (snd (internalRepo no_listing_env))
        (INT_REPO_TOKEN no_listing_env) False) = None \<and>
   generateInternalIssueContentFromPayload (context_payload no_listing_env) \<noteq> None \<and>
   checkDuplicates no_listing_env bounty_event [] =
     (True, [GetIssueList ''github'' (Some ''securitylab-internal'') (Some ''internal-secret'')
               False]) \<and>
   run no_listing_env [] =
     (\<lparr>called_checkDuplicates = True, called_createInternalIssue = False,
       internal_reference = None, called_commentOriginalIssue = False\<rparr>,
      [GetIssueList ''github'' (Some ''securitylab-internal'') (Some ''internal-secret'') False])"
proof -
  have g: "generateInternalIssueContentFromPayload (context_payload no_listing_env) \<noteq> None"
    by (simp add: no_listing_env_def fresh_env_def bounty_event_def heap_overflow_def
          generateInternalIssueContentFromPayload_def scan_labels_def scan_label_def
          BOUNTY_LABELS_def Let_def)
  have i: "internalRepo no_listing_env = (''github'', Some ''securitylab-internal'')"
    by (simp add: internalRepo_def split_slash_def no_listing_env_def fresh_env_def)
  have l: "issue_list no_listing_env [] c = None" for c
    by (simp add: no_listing_env_def fresh_env_def)
  have t: "INT_REPO_TOKEN no_listing_env = Some ''internal-secret''"
    by (simp add: no_listing_env_def fresh_env_def)
  show ?thesis
    using unavailable_list_is_duplicate [of no_listing_env "[]" bounty_event] g l
    by (simp add: i t)
qed



lemma fresh_tracker_run:
  assumes "INT_REPO_TOKEN env = Some ''internal-secret''"
    and "GITHUB_TOKEN env = Some ''public-secret''"
    and "input_internal_repo env = ''github/securitylab-internal''"
    and "context_payload env = bounty_event"
    and "issues_create env = (\<lambda>tr c. Inr 7)"
    and "issues_createComment env = (\<lambda>tr c. Inr ''https://api.github.com/comment'')"
    and "issue_list env = (\<lambda>tr c. Some [])"
  shows "checkDuplicates env bounty_event [] =
           (False, [GetIssueList ''github'' (Some ''securitylab-internal'')
                      (Some ''internal-secret'') False])"
    and "fst (createInternalIssue env bounty_event bounty_draft tr) = Some 7"
    and "comment_texts (snd (createInternalIssue env bounty_event bounty_draft tr)) =
           comment_texts tr
           @ [COMMENT_TASK_LIST, COMMENT_SCORING, COMMENT_FIRST_SUBMISSION]"
proof -
  have i: "internalRepo env = (''github'', Some ''securitylab-internal'')"
    using assms(3) by (simp add: internalRepo_def split_slash_def)
  show "checkDuplicates env bounty_event [] =
           (False, [GetIssueList ''github'' (Some ''securitylab-internal'')
                      (Some ''internal-secret'') False])"
    using assms(1,7)
    by (simp add: checkDuplicates_def getIssueList_def i internalIssueAlreadyCreated_def
          truthy_number_def bounty_event_def heap_overflow_def)
  have f: "isFirstSubmission env bounty_event (Some ''public-secret'') tr' =
             (Inr True, tr' @ [GetIssueList ''github'' (Some ''securitylab'')
                                 (Some ''public-secret'') False])" for tr'
    using assms(7)
    by (simp add: isFirstSubmission_def getIssueList_def isUserAlreadyParticipant_def
          bounty_event_def heap_overflow_def securitylab_def)
  have c: "createInternalIssue env bounty_event bounty_draft tr =
             (Some 7,
              tr @ [IssuesCreate ''internal-secret'' ''github'' (Some ''securitylab-internal'')
                      (title bounty_draft) (body bounty_draft) (labels bounty_draft),
                    IssuesCreateComment ''internal-secret'' ''github''
                      (Some ''securitylab-internal'') 7 COMMENT_TASK_LIST,
                    IssuesCreateComment ''internal-secret'' ''github''
                      (Some ''securitylab-internal'') 7 COMMENT_SCORING,
                    GetIssueList ''github'' (Some ''securitylab'') (Some ''public-secret'') False,
                    IssuesCreateComment ''internal-secret'' ''github''
                      (Some ''securitylab-internal'') 7 COMMENT_FIRST_SUBMISSION])"
    using assms(1,2,5,6) by (simp add: createInternalIssue_def i f)
  show "fst (createInternalIssue env bounty_event bounty_draft tr) = Some 7"
    by (simp add: c)
  show "comment_texts (snd (createInternalIssue env bounty_event bounty_draft tr)) =
           comment_texts tr
           @ [COMMENT_TASK_LIST, COMMENT_SCORING, COMMENT_FIRST_SUBMISSION]"
    by (simp add: c comment_texts_append)
qed




text \<open>
  With a falsy value of \<^verbatim>\<open>existingIssue\<close> the part of \<^verbatim>\<open>run\<close> after the classifier
  creates the internal issue and calls \<^verbatim>\<open>commentOriginalIssue\<close>, without a duplicate
  check before.
\<close>

lemma run_from_existingIssue_falsy:
  "run_from_existingIssue fresh_env (JBool False) bounty_draft [] =
     (\<lparr>called_checkDuplicates = False, called_createInternalIssue = True,
       internal_reference = Some 7, called_commentOriginalIssue = True\<rparr>,
      commentOriginalIssue fresh_env bounty_event 7
        (snd (createInternalIssue fresh_env bounty_event bounty_draft [])))"
proof -
  have c: "fst (createInternalIssue fresh_env bounty_event bounty_draft []) = Some 7"
    by (rule fresh_tracker_run) (simp_all add: fresh_env_def)
  have p: "context_payload fresh_env = bounty_event"
    by (simp add: fresh_env_def)
  show ?thesis
    using c by (auto simp: run_from_existingIssue_def p Let_def split: prod.splits)
qed

text \<open>
  C8. The flag computed from the input \<^verbatim>\<open>existingIssue\<close> is the boolean true when the
  input is empty or not set, and the input string itself otherwise, so it is truthy for
  every input. Hence every run that passes the classifier calls \<^verbatim>\<open>checkDuplicates\<close>,
  no run calls \<^verbatim>\<open>commentOriginalIssue\<close>, and the requests of a run are those of
  \<^verbatim>\<open>checkDuplicates\<close> followed, if no duplicate is reported, by those of
  \<^verbatim>\<open>createInternalIssue\<close>.
\<close>

theorem existingIssue_flag_always_truthy:
  "existingIssue_flag env =
     (if input_existingIssue env = [] then JBool True else JString (input_existingIssue env))
   \<and> truthy (existingIssue_flag env)
   \<and> called_checkDuplicates (fst (run env tr)) =
       (generateInternalIssueContentFromPayload (context_payload env) \<noteq> None)
   \<and> \<not> called_commentOriginalIssue (fst (run env tr))
   \<and> snd (run env tr) =
       (case generateInternalIssueContentFromPayload (context_payload env) of
          None \<Rightarrow> tr
        | Some internalIssue \<Rightarrow>
            (case checkDuplicates env (context_payload env) tr of
               (duplicate, tr1) \<Rightarrow>
                 if duplicate then tr1
                 else snd (createInternalIssue env (context_payload env) internalIssue tr1)))"
proof -
  have 1: "existingIssue_flag env =
     (if input_existingIssue env = [] then JBool True else JString (input_existingIssue env))"
    by (simp add: existingIssue_flag_def js_or_def)
  have 3: "called_checkDuplicates (fst (run env tr)) =
       (generateInternalIssueContentFromPayload (context_payload env) \<noteq> None)"
    by (simp add: run_with_truthy_flag split: option.splits prod.splits)
  have 4: "\<not> called_commentOriginalIssue (fst (run env tr))"
    by (simp add: run_with_truthy_flag split: option.splits prod.splits)
  have 5: "snd (run env tr) =
       (case generateInternalIssueContentFromPayload (context_payload env) of
          None \<Rightarrow> tr
        | Some internalIssue \<Rightarrow>
            (case checkDuplicates env (context_payload env) tr of
               (duplicate, tr1) \<Rightarrow>
                 if duplicate then tr1
                 else snd (createInternalIssue env (context_payload env) internalIssue tr1)))"
    by (simp add: run_with_truthy_flag split: option.splits prod.splits)
  from 1 existingIssue_flag_truthy 3 4 5 show ?thesis by blast
qed

theorem existingIssue_flag_always_truthy_witness:
  "existingIssue_flag (fresh_env\<lparr>input_existingIssue := ''false''\<rparr>) = JString ''false'' \<and>
   existingIssue_flag fresh_env = JBool True \<and>
   called_checkDuplicates (fst (run (fresh_env\<lparr>input_existingIssue := ''false''\<rparr>) [])) \<and>
   \<not> called_commentOriginalIssue (fst (run (fresh_env\<lparr>input_existingIssue := ''false''\<rparr>) []))"
proof -
  have g: "generateInternalIssueContentFromPayload bounty_event \<noteq> None"
    by (simp add: bounty_event_def heap_overflow_def
          generateInternalIssueContentFromPayload_def scan_labels_def scan_label_def
          BOUNTY_LABELS_def Let_def)
  show ?thesis
    using existingIssue_flag_always_truthy [of "fresh_env\<lparr>input_existingIssue := ''false''\<rparr>" "[]"]
      existingIssue_flag_always_truthy [of fresh_env "[]"] g
    by (simp add: fresh_env_def)
qed

end
